theory Spec2Isabelle
  imports Main
begin

section \<open>Values, statuses and exceptions\<close>

text \<open>
  The Python values that can reach a result, a message or a description: \<open>None\<close>, a
  string or an integer. On these three shapes Python's \<open>==\<close> is structural equality, and
  membership in a set of strings holds for a string of the set only.
\<close>

datatype pyval = PyNone | PyStr string | PyInt int


text \<open>
  Exceptions. \<open>SystemExit\<close> carries its \<open>code\<close>; \<open>Exception\<close> stands for an instance of
  any other class, named by a string. \<open>InvalidReference\<close> is not a Python exception: it is
  the value of an operation applied to an address that holds no object, which a Python
  reference never is.
\<close>

datatype exn = ValueError | IOError | SystemExit pyval | Exception string | InvalidReference

text \<open>\<open>status = _nameset(("SUCCESS", "WARN", "FAIL"))\<close>; \<open>status.X\<close> is the name \<open>X\<close> itself.\<close>

definition SUCCESS :: pyval where
  "SUCCESS = PyStr ''SUCCESS''"

definition WARN :: pyval where
  "WARN = PyStr ''WARN''"

definition FAIL :: pyval where
  "FAIL = PyStr ''FAIL''"

definition status :: "pyval set" where
  "status = {SUCCESS, WARN, FAIL}"

definition FINISH_EVENT_TYPE :: string where
  "FINISH_EVENT_TYPE = ''finish''"


definition RESULT_EVENT_TYPE :: string where
  "RESULT_EVENT_TYPE = ''result''"

definition DEFAULT_EVENT_ORIGIN :: string where
  "DEFAULT_EVENT_ORIGIN = ''curtin''"

section \<open>Events\<close>

text \<open>Readings of the clock \<open>time.time()\<close>; the model only stores and compares them.\<close>

type_synonym time = int

record ReportingEvent =
  event_type :: string
  event_name :: string
  event_description :: pyval
  origin :: string
  timestamp :: time

record FinishReportingEvent = ReportingEvent +
  event_result :: pyval
  event_post_files :: "string list"

datatype event = Plain ReportingEvent | Finish FinishReportingEvent

text \<open>
  A handler is what its \<open>publish_event\<close> does with an event: return (\<open>None\<close>) or raise.
\<close>

type_synonym handler = "event \<Rightarrow> exn option"

type_synonym addr = nat

record ReportEventStack =
  parent :: "addr option"
  name :: string
  description :: pyval
  priv_message :: pyval
  result_on_exception :: pyval
  priv_result :: pyval
  post_files :: "string list"
  reporting_enabled :: bool
  fullname :: string
  children :: "(string \<times> pyval \<times> pyval) list"

text \<open>
  The state of the process. \<open>default_timestamp\<close> is the default value of the parameter
  \<open>timestamp\<close> of \<open>ReportingEvent.__init__\<close>: Python evaluates the default expression
  \<open>time.time()\<close> once, when the \<open>def\<close> statement runs at import. \<open>registered_items\<close> is the
  handler registry in its iteration order. \<open>published\<close> records every call of a
  handler's \<open>publish_event\<close>, the raising ones too. \<open>heap\<close> holds the
  \<open>ReportEventStack\<close> objects, \<open>next_addr\<close> the next address to allocate.
\<close>

record world =
  clock :: time
  default_timestamp :: time
  registered_items :: "(string \<times> handler) list"
  published :: "(string \<times> event) list"
  heap :: "addr \<rightharpoonup> ReportEventStack"
  next_addr :: addr

definition time_time :: "world \<Rightarrow> time" where
  "time_time w = clock w"

text \<open>Importing the module runs the \<open>def\<close> statements, which fixes the default.\<close>

definition import_events :: "world \<Rightarrow> world" where
  "import_events w = w\<lparr>default_timestamp := time_time w\<rparr>"

text \<open>
  \<open>ReportingEvent.__init__\<close>. An omitted argument is \<open>None\<close> here; the world is the one
  the constructor runs in, and its clock is never read.
\<close>

definition ReportingEvent_init ::
  "world \<Rightarrow> string \<Rightarrow> string \<Rightarrow> pyval \<Rightarrow> string option \<Rightarrow> time option \<Rightarrow> ReportingEvent" where
  "ReportingEvent_init w etype nm descr orig ts =
     \<lparr>event_type = etype, event_name = nm, event_description = descr,
      origin = (case orig of None \<Rightarrow> DEFAULT_EVENT_ORIGIN | Some og \<Rightarrow> og),
      timestamp = (case ts of None \<Rightarrow> default_timestamp w | Some t \<Rightarrow> t)\<rparr>"

definition FinishReportingEvent_init ::
  "world \<Rightarrow> string \<Rightarrow> pyval \<Rightarrow> pyval option \<Rightarrow> string list option \<Rightarrow> exn + FinishReportingEvent" where
  "FinishReportingEvent_init w nm descr res pfiles =
     (let base = ReportingEvent_init w FINISH_EVENT_TYPE nm descr None None;
          r = (case res of None \<Rightarrow> SUCCESS | Some v \<Rightarrow> v);
          pf = (case pfiles of None \<Rightarrow> [] | Some fs \<Rightarrow> fs)
      in if r \<notin> status then Inl ValueError
         else Inr \<lparr>event_type = event_type base, event_name = event_name base,
                   event_description = event_description base, origin = origin base,
                   timestamp = timestamp base, event_result = r, event_post_files = pf\<rparr>)"

section \<open>Dispatch\<close>

text \<open>
  The loop of \<open>report_event\<close> over the registry's items: each handler is called in turn;
  a raise ends the loop with the calls made so far.
\<close>

fun report_event_loop ::
  "(string \<times> handler) list \<Rightarrow> event \<Rightarrow> (string \<times> event) list \<Rightarrow> exn option \<times> (string \<times> event) list" where
  "report_event_loop [] ev tr = (None, tr)"
| "report_event_loop ((hname, h) # hs) ev tr =
     (case h ev of
        Some e \<Rightarrow> (Some e, tr @ [(hname, ev)])
      | None \<Rightarrow> report_event_loop hs ev (tr @ [(hname, ev)]))"

definition report_event :: "world \<Rightarrow> event \<Rightarrow> exn option \<times> world" where
  "report_event w ev =
     (case report_event_loop (registered_items w) ev (published w) of
        (r, tr) \<Rightarrow> (r, w\<lparr>published := tr\<rparr>))"

definition report_finish_event ::
  "world \<Rightarrow> string \<Rightarrow> pyval \<Rightarrow> pyval option \<Rightarrow> string list option \<Rightarrow> exn option \<times> world" where
  "report_finish_event w nm descr res pfiles =
     (case FinishReportingEvent_init w nm descr res pfiles of
        Inl e \<Rightarrow> (Some e, w)
      | Inr ev \<Rightarrow> report_event w (Finish ev))"


section \<open>The scoped stage stack\<close>

text \<open>
  \<open>d[k] = v\<close> on a dictionary kept in insertion order: an existing key keeps its place.
\<close>

fun dict_setitem :: "('k \<times> 'v) list \<Rightarrow> 'k \<Rightarrow> 'v \<Rightarrow> ('k \<times> 'v) list" where
  "dict_setitem [] k v = [(k, v)]"
| "dict_setitem ((k', v') # d) k v =
     (if k' = k then (k, v) # d else (k', v') # dict_setitem d k v)"

text \<open>The property \<open>result\<close>: its getter and its validating setter.\<close>

definition result :: "ReportEventStack \<Rightarrow> pyval" where
  "result s = priv_result s"


text \<open>The property \<open>message\<close>: its getter and its setter.\<close>

definition message :: "ReportEventStack \<Rightarrow> pyval" where
  "message s = (if priv_message s \<noteq> PyNone then priv_message s else description s)"

definition message_setter :: "ReportEventStack \<Rightarrow> pyval \<Rightarrow> ReportEventStack" where
  "message_setter s v = s\<lparr>priv_message := v\<rparr>"


text \<open>
  \<open>_childrens_finish_info\<close>: the inner loop looks for a child whose recorded value is
  the candidate, the outer loop tries \<open>FAIL\<close>, then \<open>WARN\<close>.
\<close>

fun scan_children :: "pyval \<Rightarrow> (string \<times> pyval \<times> pyval) list \<Rightarrow> pyval option" where
  "scan_children cand [] = None"
| "scan_children cand ((cname, (val, msg)) # rest) =
     (if val = cand then Some val else scan_children cand rest)"

fun scan_candidates :: "pyval list \<Rightarrow> (string \<times> pyval \<times> pyval) list \<Rightarrow> pyval option" where
  "scan_candidates [] ch = None"
| "scan_candidates (cand # cands) ch =
     (case scan_children cand ch of Some v \<Rightarrow> Some v | None \<Rightarrow> scan_candidates cands ch)"

definition childrens_finish_info :: "ReportEventStack \<Rightarrow> pyval \<times> pyval" where
  "childrens_finish_info s =
     (case scan_candidates [FAIL, WARN] (children s) of
        Some v \<Rightarrow> (v, message s)
      | None \<Rightarrow> (result s, message s))"

text \<open>\<open>isinstance(exc, SystemExit) and exc.code == 0\<close>\<close>

fun clean_exit :: "exn \<Rightarrow> bool" where
  "clean_exit (SystemExit code) = (code = PyInt 0)"
| "clean_exit e = False"

text \<open>\<open>_finish_info\<close>; an exception object is true as a condition.\<close>

fun finish_info :: "ReportEventStack \<Rightarrow> exn option \<Rightarrow> pyval \<times> pyval" where
  "finish_info s (Some e) =
     (if \<not> clean_exit e then (result_on_exception s, message s) else childrens_finish_info s)"
| "finish_info s None = childrens_finish_info s"

text \<open>\<open>self.parent.children[self.name] = entry\<close>, on the parent's object in the heap.\<close>

definition set_parent_child ::
  "world \<Rightarrow> addr option \<Rightarrow> string \<Rightarrow> pyval \<times> pyval \<Rightarrow> exn + world" where
  "set_parent_child w par nm entry =
     (case par of
        None \<Rightarrow> Inr w
      | Some p \<Rightarrow>
          (case heap w p of
             None \<Rightarrow> Inl InvalidReference
           | Some ps \<Rightarrow>
               Inr (w\<lparr>heap := (heap w)(p \<mapsto> ps\<lparr>children := dict_setitem (children ps) nm entry\<rparr>)\<rparr>)))"




section \<open>Serialisation of a finish event\<close>

text \<open>
  The file system at the time of a call: a path that names something names a regular
  file, or something else (a directory, a device). A regular file comes with what
  opening and reading it gives: its bytes, or the error raised (no permission, an I/O
  error, the file removed after the test of \<open>isfile\<close>). Bytes are \<open>char\<close>s.
\<close>

datatype fs_node = RegularFile "exn + char list" | Directory

type_synonym filesystem = "string \<rightharpoonup> fs_node"

definition os_path_isfile :: "filesystem \<Rightarrow> string \<Rightarrow> bool" where
  "os_path_isfile fs p = (case fs p of Some (RegularFile r) \<Rightarrow> True | _ \<Rightarrow> False)"

text \<open>
  \<open>open(fname, "rb").read()\<close>: the bytes of a regular file or the error of reading it,
  and an error on anything else.
\<close>

definition read_binary :: "filesystem \<Rightarrow> string \<Rightarrow> exn + char list" where
  "read_binary fs p = (case fs p of Some (RegularFile r) \<Rightarrow> r | _ \<Rightarrow> Inl IOError)"

text \<open>
  \<open>base64.b64encode\<close> of the standard library, with the standard alphabet: three bytes
  give four characters, a last group of one or two bytes is padded with \<open>=\<close>.
\<close>

definition b64_alphabet :: string where
  "b64_alphabet = ''ABCDEFGHIJKLMNOPQRSTUVWXYZabcdefghijklmnopqrstuvwxyz0123456789+/''"

definition b64_char :: "nat \<Rightarrow> char" where
  "b64_char n = b64_alphabet ! (n mod 64)"

fun b64encode :: "char list \<Rightarrow> string" where
  "b64encode [] = []"
| "b64encode [a] =
     (let n = of_char a * 65536
      in [b64_char (n div 262144), b64_char (n div 4096), CHR ''='', CHR ''=''])"
| "b64encode [a, b] =
     (let n = of_char a * 65536 + of_char b * 256
      in [b64_char (n div 262144), b64_char (n div 4096), b64_char (n div 64), CHR ''=''])"
| "b64encode (a # b # c # rest) =
     (let n = of_char a * 65536 + of_char b * 256 + of_char c
      in [b64_char (n div 262144), b64_char (n div 4096), b64_char (n div 64), b64_char n]
         @ b64encode rest)"

text \<open>What \<open>as_dict\<close> returns: a dictionary of values, floats, lists and dictionaries.\<close>

datatype pydata =
  Val pyval
| Float time
| PList "pydata list"
| PDict "(string \<times> pydata) list"

text \<open>The loop of \<open>_collect_file_info\<close>, \<open>ret\<close> being the list built so far.\<close>

fun collect_file_loop :: "filesystem \<Rightarrow> string list \<Rightarrow> pydata list \<Rightarrow> exn + pydata list" where
  "collect_file_loop fs [] ret = Inr ret"
| "collect_file_loop fs (fname # files) ret =
     (case (if \<not> os_path_isfile fs fname then Inr PyNone
            else (case read_binary fs fname of
                    Inl e \<Rightarrow> Inl e
                  | Inr bs \<Rightarrow> Inr (PyStr (b64encode bs)))) of
        Inl e \<Rightarrow> Inl e
      | Inr content \<Rightarrow>
          collect_file_loop fs files
            (ret @ [PDict [(''path'', Val (PyStr fname)), (''content'', Val content),
                           (''encoding'', Val (PyStr ''base64''))]]))"

definition collect_file_info :: "filesystem \<Rightarrow> string list \<Rightarrow> exn + pydata" where
  "collect_file_info fs files =
     (if files = [] then Inr (Val PyNone)
      else (case collect_file_loop fs files [] of Inl e \<Rightarrow> Inl e | Inr ret \<Rightarrow> Inr (PList ret)))"

definition ReportingEvent_as_dict :: "'a ReportingEvent_scheme \<Rightarrow> (string \<times> pydata) list" where
  "ReportingEvent_as_dict ev =
     [(''name'', Val (PyStr (event_name ev))), (''description'', Val (event_description ev)),
      (''event_type'', Val (PyStr (event_type ev))), (''origin'', Val (PyStr (origin ev))),
      (''timestamp'', Float (timestamp ev))]"

definition FinishReportingEvent_as_dict ::
  "filesystem \<Rightarrow> FinishReportingEvent \<Rightarrow> exn + (string \<times> pydata) list" where
  "FinishReportingEvent_as_dict fs ev =
     (let data = dict_setitem (ReportingEvent_as_dict ev) ''result'' (Val (event_result ev))
      in if event_post_files ev \<noteq> []
         then (case collect_file_info fs (event_post_files ev) of
                 Inl e \<Rightarrow> Inl e
               | Inr files \<Rightarrow> Inr (dict_setitem data ''files'' files))
         else Inr data)"

text \<open>
  The entry of one path in the \<open>files\<close> list, as a function of the file system: the
  base64 text of the bytes for a regular file that can be read, \<open>None\<close> otherwise.
\<close>

definition file_entry :: "filesystem \<Rightarrow> string \<Rightarrow> pydata" where
  "file_entry fs fname =
     PDict [(''path'', Val (PyStr fname)),
            (''content'', (case fs fname of
                            Some (RegularFile (Inr bs)) \<Rightarrow> Val (PyStr (b64encode bs))
                          | _ \<Rightarrow> Val PyNone)),
            (''encoding'', Val (PyStr ''base64''))]"

text \<open>The error that collecting a path raises, if it raises: that of reading a regular file.\<close>

definition read_fault :: "filesystem \<Rightarrow> string \<Rightarrow> exn option" where
  "read_fault fs fname =
     (case fs fname of Some (RegularFile (Inl e)) \<Rightarrow> Some e | _ \<Rightarrow> None)"

section \<open>Example objects\<close>

text \<open>A process with the given registry, nothing published and no stack allocated.\<close>

definition fresh_world :: "(string \<times> handler) list \<Rightarrow> world" where
  "fresh_world hs =
     \<lparr>clock = 0, default_timestamp = 0, registered_items = hs, published = [],
      heap = Map.empty, next_addr = 0\<rparr>"

definition quiet_handler :: handler where
  "quiet_handler ev = None"

definition faulty_handler :: handler where
  "faulty_handler ev = Some (Exception ''boom'')"

definition handlers_abc :: "(string \<times> handler) list" where
  "handlers_abc = [(''A'', quiet_handler), (''B'', quiet_handler), (''C'', quiet_handler)]"

definition handlers_b_faulty :: "(string \<times> handler) list" where
  "handlers_b_faulty = [(''A'', quiet_handler), (''B'', faulty_handler), (''C'', quiet_handler)]"

definition example_event :: event where
  "example_event =
     Plain \<lparr>event_type = ''start'', event_name = ''install'',
            event_description = PyStr ''installing'', origin = ''curtin'', timestamp = 0\<rparr>"

text \<open>A root stack with the given entries in its \<open>children\<close>.\<close>

definition example_stack :: "(string \<times> pyval \<times> pyval) list \<Rightarrow> ReportEventStack" where
  "example_stack ch =
     \<lparr>parent = None, name = ''install'', description = PyStr ''installing'',
      priv_message = PyNone, result_on_exception = FAIL, priv_result = SUCCESS,
      post_files = [], reporting_enabled = True, fullname = ''install'', children = ch\<rparr>"

text \<open>
  A file system with a regular file whose bytes are \<open>hi\<close>, a regular file that cannot
  be read, and a directory.
\<close>

definition example_fs :: filesystem where
  "example_fs =
     [''/var/log/install.log'' \<mapsto> RegularFile (Inr ''hi''),
      ''/var/log/secret'' \<mapsto> RegularFile (Inl IOError),
      ''/var/log'' \<mapsto> Directory]"

definition example_finish_event :: "string list \<Rightarrow> FinishReportingEvent" where
  "example_finish_event files =
     \<lparr>event_type = ''finish'', event_name = ''install'', event_description = PyStr ''done'',
      origin = ''curtin'', timestamp = 0, event_result = SUCCESS, event_post_files = files\<rparr>"













section \<open>Rollup of the children's results\<close>

lemma scan_children_eq:
  "scan_children cand ch = (if \<exists>e\<in>set ch. fst (snd e) = cand then Some cand else None)"
  by (induction cand ch rule: scan_children.induct) auto

lemma scan_candidates_FAIL_WARN:
  "scan_candidates [FAIL, WARN] ch =
     (if \<exists>e\<in>set ch. fst (snd e) = FAIL then Some FAIL
      else if \<exists>e\<in>set ch. fst (snd e) = WARN then Some WARN
      else None)"
  by (simp add: scan_children_eq)

lemma childrens_finish_info_eq:
  "childrens_finish_info s =
     (if \<exists>e\<in>set (children s). fst (snd e) = FAIL then (FAIL, message s)
      else if \<exists>e\<in>set (children s). fst (snd e) = WARN then (WARN, message s)
      else (result s, message s))"
  by (simp add: childrens_finish_info_def scan_candidates_FAIL_WARN del: scan_candidates.simps)

lemma PyNone_not_FAIL_WARN: "PyNone \<noteq> FAIL" "PyNone \<noteq> WARN"
  by (simp_all add: FAIL_def WARN_def)

text \<open>
  C1. A stack that exits with no exception reports \<open>(FAIL, message)\<close> when some entry of
  its \<open>children\<close> records \<open>FAIL\<close>; otherwise \<open>(WARN, message)\<close> when some entry records
  \<open>WARN\<close>; otherwise its own \<open>(result, message)\<close>. The outcome depends on the set of
  entries only, so not on the order in which the children were recorded, and entries
  that are all the placeholder \<open>(None, None)\<close> leave the stack's own result.
\<close>

theorem rollup_on_normal_exit:
  "finish_info s None =
     (if \<exists>e\<in>set (children s). fst (snd e) = FAIL then (FAIL, message s)
      else if \<exists>e\<in>set (children s). fst (snd e) = WARN then (WARN, message s)
      else (result s, message s))
   \<and> ((\<forall>e\<in>set (children s). snd e = (PyNone, PyNone)) \<longrightarrow>
        finish_info s None = (result s, message s))"
proof -
  have main: "finish_info s None =
     (if \<exists>e\<in>set (children s). fst (snd e) = FAIL then (FAIL, message s)
      else if \<exists>e\<in>set (children s). fst (snd e) = WARN then (WARN, message s)
      else (result s, message s))"
    by (simp add: childrens_finish_info_eq)
  have "finish_info s None = (result s, message s)"
    if "\<forall>e\<in>set (children s). snd e = (PyNone, PyNone)"
  proof -
    from that have "\<not> (\<exists>e\<in>set (children s). fst (snd e) = FAIL)"
      and "\<not> (\<exists>e\<in>set (children s). fst (snd e) = WARN)"
      using PyNone_not_FAIL_WARN by auto
    with main show ?thesis by simp
  qed
  with main show ?thesis by blast
qed

theorem rollup_on_normal_exit_witness:
  "finish_info (example_stack [(''a'', (WARN, PyStr ''x'')), (''b'', (FAIL, PyStr ''y''))]) None
     = (FAIL, PyStr ''installing'')
   \<and> finish_info (example_stack [(''b'', (FAIL, PyStr ''y'')), (''a'', (WARN, PyStr ''x''))]) None
     = (FAIL, PyStr ''installing'')
   \<and> finish_info (example_stack [(''a'', (WARN, PyStr ''x'')), (''b'', (SUCCESS, PyStr ''y''))]) None
     = (WARN, PyStr ''installing'')
   \<and> finish_info (example_stack [(''a'', (PyNone, PyNone)), (''b'', (PyNone, PyNone))]) None
     = (SUCCESS, PyStr ''installing'')"
proof -
  have placeholders:
    "\<forall>e\<in>set (children (example_stack [(''a'', (PyNone, PyNone)), (''b'', (PyNone, PyNone))])).
       snd e = (PyNone, PyNone)"
    by (simp add: example_stack_def)
  have msg: "message (example_stack ch) = PyStr ''installing''" for ch
    by (simp add: message_def example_stack_def)
  have res: "result (example_stack ch) = SUCCESS" for ch
    by (simp add: result_def example_stack_def)
  have ch: "children (example_stack ch) = ch" for ch
    by (simp add: example_stack_def)
  have neq: "WARN \<noteq> FAIL" "SUCCESS \<noteq> FAIL" "SUCCESS \<noteq> WARN"
    by (simp_all add: WARN_def FAIL_def SUCCESS_def)
  show ?thesis
    using rollup_on_normal_exit
            [of "example_stack [(''a'', (WARN, PyStr ''x'')), (''b'', (FAIL, PyStr ''y''))]"]
          rollup_on_normal_exit
            [of "example_stack [(''b'', (FAIL, PyStr ''y'')), (''a'', (WARN, PyStr ''x''))]"]
          rollup_on_normal_exit
            [of "example_stack [(''a'', (WARN, PyStr ''x'')), (''b'', (SUCCESS, PyStr ''y''))]"]
          rollup_on_normal_exit
            [of "example_stack [(''a'', (PyNone, PyNone)), (''b'', (PyNone, PyNone))]"]
          placeholders
    by (simp add: msg res ch neq PyNone_not_FAIL_WARN)
qed

section \<open>Dispatch to the handlers\<close>

lemma report_event_loop_all_return:
  "\<forall>p\<in>set hs. snd p ev = None \<Longrightarrow>
   report_event_loop hs ev tr = (None, tr @ map (\<lambda>p. (fst p, ev)) hs)"
  by (induction hs ev tr rule: report_event_loop.induct) auto

lemma report_event_loop_fault:
  "\<forall>p\<in>set pre. snd p ev = None \<Longrightarrow> h ev = Some e \<Longrightarrow>
   report_event_loop (pre @ (n, h) # post) ev tr =
     (Some e, tr @ map (\<lambda>p. (fst p, ev)) pre @ [(n, ev)])"
proof (induction pre arbitrary: tr)
  case Nil
  then show ?case by simp
next
  case (Cons p pre)
  obtain pn ph where p: "p = (pn, ph)" by (cases p)
  with Cons.prems have "ph ev = None" by simp
  with Cons p show ?case by simp
qed

lemma report_event_all_return:
  "\<forall>p\<in>set (registered_items w). snd p ev = None \<Longrightarrow>
   report_event w ev =
     (None, w\<lparr>published := published w @ map (\<lambda>p. (fst p, ev)) (registered_items w)\<rparr>)"
  by (simp add: report_event_def report_event_loop_all_return)

text \<open>
  C5. \<open>report_event\<close> calls \<open>publish_event\<close> on the registered handlers in the registry's
  order. When none raises, every handler is called once, in that order, and the call
  returns. When a handler raises, its exception is the outcome of \<open>report_event\<close>, the
  handlers before it and itself have been called once each, and no handler after it.
\<close>

theorem report_event_dispatch:
  "((\<forall>p\<in>set (registered_items w). snd p ev = None) \<longrightarrow>
      report_event w ev =
        (None, w\<lparr>published := published w @ map (\<lambda>p. (fst p, ev)) (registered_items w)\<rparr>))
   \<and> (registered_items w = pre @ (n, h) # post \<and> (\<forall>p\<in>set pre. snd p ev = None) \<and> h ev = Some e \<longrightarrow>
      report_event w ev =
        (Some e, w\<lparr>published := published w @ map (\<lambda>p. (fst p, ev)) pre @ [(n, ev)]\<rparr>))"
  by (simp add: report_event_def report_event_loop_all_return report_event_loop_fault)

theorem report_event_dispatch_witness:
  "report_event (fresh_world handlers_abc) example_event =
     (None, (fresh_world handlers_abc)
              \<lparr>published := [(''A'', example_event), (''B'', example_event), (''C'', example_event)]\<rparr>)
   \<and> report_event (fresh_world handlers_b_faulty) example_event =
     (Some (Exception ''boom''),
      (fresh_world handlers_b_faulty)\<lparr>published := [(''A'', example_event), (''B'', example_event)]\<rparr>)"
proof -
  have all_quiet: "\<forall>p\<in>set (registered_items (fresh_world handlers_abc)). snd p example_event = None"
    by (simp add: fresh_world_def handlers_abc_def quiet_handler_def)
  have split: "registered_items (fresh_world handlers_b_faulty) =
                 [(''A'', quiet_handler)] @ (''B'', faulty_handler) # [(''C'', quiet_handler)]"
    by (simp add: fresh_world_def handlers_b_faulty_def)
  have before: "\<forall>p\<in>set [(''A'', quiet_handler)]. snd p example_event = None"
    by (simp add: quiet_handler_def)
  have fault: "faulty_handler example_event = Some (Exception ''boom'')"
    by (simp add: faulty_handler_def)
  have regs: "registered_items (fresh_world hs) = hs" "published (fresh_world hs) = []" for hs
    by (simp_all add: fresh_world_def)
  from report_event_dispatch [of "fresh_world handlers_abc" example_event] all_quiet
  have one: "report_event (fresh_world handlers_abc) example_event =
     (None, (fresh_world handlers_abc)
              \<lparr>published := [(''A'', example_event), (''B'', example_event), (''C'', example_event)]\<rparr>)"
    by (simp add: regs handlers_abc_def)
  from report_event_dispatch
         [where w = "fresh_world handlers_b_faulty" and pre = "[(''A'', quiet_handler)]"
            and n = "''B''" and h = faulty_handler and post = "[(''C'', quiet_handler)]"
            and ev = example_event and e = "Exception ''boom''"]
       split before fault
  have two: "report_event (fresh_world handlers_b_faulty) example_event =
     (Some (Exception ''boom''),
      (fresh_world handlers_b_faulty)\<lparr>published := [(''A'', example_event), (''B'', example_event)]\<rparr>)"
    by (simp add: regs)
  from one two show ?thesis by simp
qed

text \<open>
  C6. \<open>report_finish_event\<close> with a result outside \<open>status\<close>: the constructor of
  \<open>FinishReportingEvent\<close> raises \<open>ValueError\<close> and the call ends with it in an unchanged
  world, so no handler has been called. With a result of \<open>status\<close> the constructor returns
  the event, and the call is the dispatch of that event.
\<close>

theorem report_finish_event_validates:
  "((case res of None \<Rightarrow> SUCCESS | Some v \<Rightarrow> v) \<notin> status \<longrightarrow>
      FinishReportingEvent_init w nm descr res pfiles = Inl ValueError
      \<and> report_finish_event w nm descr res pfiles = (Some ValueError, w))
   \<and> ((case res of None \<Rightarrow> SUCCESS | Some v \<Rightarrow> v) \<in> status \<longrightarrow>
      (\<exists>ev. FinishReportingEvent_init w nm descr res pfiles = Inr ev
         \<and> event_result ev = (case res of None \<Rightarrow> SUCCESS | Some v \<Rightarrow> v)
         \<and> event_name ev = nm \<and> event_description ev = descr
         \<and> report_finish_event w nm descr res pfiles = report_event w (Finish ev)))"
  by (simp add: report_finish_event_def FinishReportingEvent_init_def ReportingEvent_init_def Let_def)

theorem report_finish_event_validates_witness:
  "PyStr ''BOGUS'' \<notin> status
   \<and> report_finish_event (fresh_world handlers_abc) ''install'' (PyStr ''done'')
        (Some (PyStr ''BOGUS'')) None
     = (Some ValueError, fresh_world handlers_abc)
   \<and> WARN \<in> status
   \<and> published (snd (report_finish_event (fresh_world handlers_abc) ''install'' (PyStr ''done'')
        (Some WARN) None))
     = map (\<lambda>hname.
         (hname, Finish \<lparr>event_type = ''finish'', event_name = ''install'',
                         event_description = PyStr ''done'', origin = ''curtin'', timestamp = 0,
                         event_result = WARN, event_post_files = []\<rparr>))
         [''A'', ''B'', ''C'']"
proof -
  have bogus: "(case Some (PyStr ''BOGUS'') of None \<Rightarrow> SUCCESS | Some v \<Rightarrow> v) \<notin> status"
    by (simp add: status_def SUCCESS_def WARN_def FAIL_def)
  have warn: "(case Some WARN of None \<Rightarrow> SUCCESS | Some v \<Rightarrow> v) \<in> status"
    by (simp add: status_def)
  from report_finish_event_validates
         [of "Some (PyStr ''BOGUS'')" "fresh_world handlers_abc" "''install''" "PyStr ''done''" None]
       bogus
  have rejected:
    "report_finish_event (fresh_world handlers_abc) ''install'' (PyStr ''done'')
        (Some (PyStr ''BOGUS'')) None
     = (Some ValueError, fresh_world handlers_abc)"
    by simp
  from report_finish_event_validates
         [of "Some WARN" "fresh_world handlers_abc" "''install''" "PyStr ''done''" None]
       warn
  obtain ev where ev:
    "FinishReportingEvent_init (fresh_world handlers_abc) ''install'' (PyStr ''done'') (Some WARN) None
       = Inr ev"
    "report_finish_event (fresh_world handlers_abc) ''install'' (PyStr ''done'') (Some WARN) None
       = report_event (fresh_world handlers_abc) (Finish ev)"
    by auto
  from ev(1) warn
  have ev_eq: "ev = \<lparr>event_type = ''finish'', event_name = ''install'',
                     event_description = PyStr ''done'', origin = ''curtin'', timestamp = 0,
                     event_result = WARN, event_post_files = []\<rparr>"
    by (simp add: FinishReportingEvent_init_def ReportingEvent_init_def Let_def
                  FINISH_EVENT_TYPE_def DEFAULT_EVENT_ORIGIN_def fresh_world_def)
  have quiet: "\<forall>p\<in>set (registered_items (fresh_world handlers_abc)). snd p (Finish ev) = None"
    by (simp add: fresh_world_def handlers_abc_def quiet_handler_def)
  have dispatched:
    "published (snd (report_event (fresh_world handlers_abc) (Finish ev)))
       = map (\<lambda>hname. (hname, Finish ev)) [''A'', ''B'', ''C'']"
    by (simp add: report_event_all_return [OF quiet]) (simp add: fresh_world_def handlers_abc_def)
  from bogus rejected warn ev(2) dispatched ev_eq show ?thesis
    by simp
qed

section \<open>The message property\<close>

text \<open>
  C8, as the claim states it, fails: assigning \<open>None\<close> to \<open>message\<close> is an assignment
  after which the property does not return the assigned value but the description,
  and goes on following the description.
\<close>

theorem message_assigned_None_counterexample:
  "message (message_setter (example_stack []) PyNone) \<noteq> PyNone
   \<and> message (message_setter (message_setter (example_stack []) (PyStr ''m'')) PyNone)
       = PyStr ''installing''
   \<and> message ((message_setter (message_setter (example_stack []) (PyStr ''m'')) PyNone)
                 \<lparr>description := PyStr ''changed''\<rparr>)
       = PyStr ''changed''"
  by (simp add: message_def message_setter_def example_stack_def)

text \<open>
  C8, amended. While the stored message is \<open>None\<close> (the constructor's default, or after
  \<open>None\<close> has been assigned), the property returns the description as it is at the time
  of the access. After a value other than \<open>None\<close> has been assigned, the property returns
  that value, whatever the description becomes. Assigning \<open>None\<close> brings the fallback to
  the description back.
\<close>

theorem message_property:
  "(priv_message s = PyNone \<longrightarrow> message (s\<lparr>description := d\<rparr>) = d)
   \<and> (v \<noteq> PyNone \<longrightarrow>
        message (message_setter s v) = v
        \<and> message ((message_setter s v)\<lparr>description := d\<rparr>) = v)
   \<and> message ((message_setter s PyNone)\<lparr>description := d\<rparr>) = d"
  by (simp add: message_def message_setter_def)

theorem message_property_witness:
  "priv_message (example_stack []) = PyNone
   \<and> message ((example_stack [])\<lparr>description := PyStr ''changed''\<rparr>) = PyStr ''changed''
   \<and> PyStr ''m'' \<noteq> PyNone
   \<and> message (message_setter (example_stack []) (PyStr ''m'')) = PyStr ''m''
   \<and> message ((message_setter (example_stack []) (PyStr ''m''))\<lparr>description := PyStr ''changed''\<rparr>)
       = PyStr ''m''"
proof -
  have unset: "priv_message (example_stack []) = PyNone"
    by (simp add: example_stack_def)
  have given: "PyStr ''m'' \<noteq> PyNone"
    by simp
  from message_property [of "example_stack []" "PyStr ''changed''" "PyStr ''m''"] unset given
  show ?thesis by simp
qed

section \<open>The timestamp of an event\<close>

text \<open>
  C3. An event built with no \<open>timestamp\<close> argument carries the reading of the clock at
  the import of the module, whatever the clock reads when the event is built: the module
  imported at \<open>t0\<close>, an event built at \<open>t1\<close> has the timestamp \<open>t0\<close>. Two events built at
  different times carry the same timestamp.
\<close>

theorem default_timestamp_is_import_time:
  "time_time ((import_events (w\<lparr>clock := t0\<rparr>))\<lparr>clock := t1\<rparr>) = t1
   \<and> timestamp (ReportingEvent_init ((import_events (w\<lparr>clock := t0\<rparr>))\<lparr>clock := t1\<rparr>)
                  etype nm descr orig None) = t0
   \<and> timestamp (ReportingEvent_init ((import_events ((fresh_world [])\<lparr>clock := 100\<rparr>))\<lparr>clock := 250\<rparr>)
                  ''start'' ''install'' (PyStr ''installing'') None None) = 100
   \<and> timestamp (ReportingEvent_init ((import_events ((fresh_world [])\<lparr>clock := 100\<rparr>))\<lparr>clock := 999\<rparr>)
                  ''start'' ''install'' (PyStr ''installing'') None None) = 100"
  by (simp add: ReportingEvent_init_def import_events_def time_time_def)

section \<open>The files of a finish event\<close>

lemma read_fault_None_step:
  "read_fault fs fname = None \<Longrightarrow>
   collect_file_loop fs (fname # files) ret = collect_file_loop fs files (ret @ [file_entry fs fname])"
proof (cases "fs fname")
  case None
  then show ?thesis
    by (simp add: os_path_isfile_def file_entry_def)
next
  case (Some node)
  assume quiet: "read_fault fs fname = None"
  show ?thesis
  proof (cases node)
    case (RegularFile r)
    with Some quiet obtain bs where "r = Inr bs"
      by (cases r) (simp_all add: read_fault_def)
    with Some RegularFile show ?thesis
      by (simp add: os_path_isfile_def read_binary_def file_entry_def)
  next
    case Directory
    with Some show ?thesis
      by (simp add: os_path_isfile_def file_entry_def)
  qed
qed

lemma read_fault_Some_step:
  "read_fault fs fname = Some e \<Longrightarrow> collect_file_loop fs (fname # files) ret = Inl e"
  by (auto simp: read_fault_def os_path_isfile_def read_binary_def
           split: option.splits fs_node.splits sum.splits)

lemma collect_file_loop_all_read:
  "\<forall>q\<in>set files. read_fault fs q = None \<Longrightarrow>
   collect_file_loop fs files ret = Inr (ret @ map (file_entry fs) files)"
proof (induction files arbitrary: ret)
  case Nil
  then show ?case by simp
next
  case (Cons fname files)
  then have "read_fault fs fname = None" and rest: "\<forall>q\<in>set files. read_fault fs q = None"
    by simp_all
  then have "collect_file_loop fs (fname # files) ret =
               collect_file_loop fs files (ret @ [file_entry fs fname])"
    by (simp only: read_fault_None_step)
  with Cons.IH [OF rest] show ?case by simp
qed

lemma collect_file_loop_fault:
  "\<forall>q\<in>set pre. read_fault fs q = None \<Longrightarrow> read_fault fs p = Some e \<Longrightarrow>
   collect_file_loop fs (pre @ p # post) ret = Inl e"
proof (induction pre arbitrary: ret)
  case Nil
  then show ?case by (simp only: append_Nil read_fault_Some_step)
next
  case (Cons fname pre)
  then have "read_fault fs fname = None" and rest: "\<forall>q\<in>set pre. read_fault fs q = None"
    by simp_all
  then have "collect_file_loop fs ((fname # pre) @ p # post) ret =
               collect_file_loop fs (pre @ p # post) (ret @ [file_entry fs fname])"
    by (simp only: append_Cons read_fault_None_step)
  with Cons.IH [OF rest Cons.prems(2)] show ?case by simp
qed

lemma map_of_dict_setitem: "map_of (dict_setitem d k v) = (map_of d)(k \<mapsto> v)"
  by (induction d k v rule: dict_setitem.induct) (auto simp: fun_eq_iff)

lemma keys_dict_setitem: "fst ` set (dict_setitem d k v) = insert k (fst ` set d)"
  by (induction d k v rule: dict_setitem.induct) auto

lemma b64encode_hi: "b64encode ''hi'' = ''aGk=''"
  by (simp add: b64_char_def b64_alphabet_def Let_def)

text \<open>
  C7, as the claim states it, fails: for a path that is a regular file the content is
  not always the base64 text of the file. The file is opened and read with nothing
  catching an error, so when that raises, \<open>as_dict\<close> raises and returns no dictionary.
\<close>

theorem as_dict_unreadable_file_counterexample:
  "os_path_isfile example_fs ''/var/log/secret''
   \<and> FinishReportingEvent_as_dict example_fs (example_finish_event [''/var/log/secret''])
       = Inl IOError"
  by (simp add: FinishReportingEvent_as_dict_def collect_file_info_def os_path_isfile_def
                read_binary_def example_fs_def example_finish_event_def)

text \<open>
  C7, amended. When every regular file named in \<open>post_files\<close> can be opened and read,
  \<open>as_dict\<close> of a finish event returns a dictionary that has the key \<open>files\<close> exactly when
  \<open>post_files\<close> is not empty; its value is then the list, in the order of
  \<open>post_files\<close>, of the entries \<open>{path, content, encoding: "base64"}\<close>, the content being
  \<open>None\<close> for a path that is not a regular file and the base64 text of the bytes of the
  file otherwise; the bytes \<open>hi\<close> give \<open>aGk=\<close>. When opening or reading a regular file
  of \<open>post_files\<close> raises, \<open>as_dict\<close> raises the error of the first such file. A path
  raises exactly when it is a regular file whose read fails.
\<close>

theorem as_dict_files:
  "((\<forall>q\<in>set (event_post_files ev). read_fault fs q = None) \<longrightarrow>
      (\<exists>d. FinishReportingEvent_as_dict fs ev = Inr d
          \<and> ((''files'' \<in> fst ` set d) = (event_post_files ev \<noteq> []))
          \<and> (event_post_files ev \<noteq> [] \<longrightarrow>
               map_of d ''files'' = Some (PList (map (file_entry fs) (event_post_files ev))))))
   \<and> (event_post_files ev = pre @ p # post \<and> (\<forall>q\<in>set pre. read_fault fs q = None)
        \<and> read_fault fs p = Some e \<longrightarrow>
      FinishReportingEvent_as_dict fs ev = Inl e)
   \<and> ((read_fault fs p = Some e) = (os_path_isfile fs p \<and> read_binary fs p = Inl e))
   \<and> (fs f = Some (RegularFile (Inr bs)) \<longrightarrow>
        file_entry fs f = PDict [(''path'', Val (PyStr f)), (''content'', Val (PyStr (b64encode bs))),
                                 (''encoding'', Val (PyStr ''base64''))])
   \<and> (\<not> os_path_isfile fs f \<longrightarrow>
        file_entry fs f = PDict [(''path'', Val (PyStr f)), (''content'', Val PyNone),
                                 (''encoding'', Val (PyStr ''base64''))])
   \<and> b64encode ''hi'' = ''aGk=''"
proof -
  let ?base = "dict_setitem (ReportingEvent_as_dict ev) ''result'' (Val (event_result ev))"
  have base_keys: "''files'' \<notin> fst ` set ?base"
    by (simp add: keys_dict_setitem ReportingEvent_as_dict_def)
  have dict: "\<exists>d. FinishReportingEvent_as_dict fs ev = Inr d
       \<and> ((''files'' \<in> fst ` set d) = (event_post_files ev \<noteq> []))
       \<and> (event_post_files ev \<noteq> [] \<longrightarrow>
            map_of d ''files'' = Some (PList (map (file_entry fs) (event_post_files ev))))"
    if all_read: "\<forall>q\<in>set (event_post_files ev). read_fault fs q = None"
  proof (cases "event_post_files ev = []")
    case True
    then have "FinishReportingEvent_as_dict fs ev = Inr ?base"
      by (simp add: FinishReportingEvent_as_dict_def)
    with True base_keys show ?thesis by simp
  next
    case False
    then have "FinishReportingEvent_as_dict fs ev =
        Inr (dict_setitem ?base ''files'' (PList (map (file_entry fs) (event_post_files ev))))"
      by (simp add: FinishReportingEvent_as_dict_def collect_file_info_def
                    collect_file_loop_all_read [OF all_read])
    with False show ?thesis
      by (simp add: keys_dict_setitem map_of_dict_setitem)
  qed
  have raised: "FinishReportingEvent_as_dict fs ev = Inl e"
    if files: "event_post_files ev = pre @ p # post"
      and before: "\<forall>q\<in>set pre. read_fault fs q = None"
      and fault: "read_fault fs p = Some e"
  proof -
    have "collect_file_loop fs (event_post_files ev) [] = Inl e"
      by (simp only: files collect_file_loop_fault [OF before fault])
    moreover from files have "event_post_files ev \<noteq> []" by simp
    ultimately show ?thesis
      by (simp add: FinishReportingEvent_as_dict_def collect_file_info_def)
  qed
  have fault_iff: "(read_fault fs p = Some e) = (os_path_isfile fs p \<and> read_binary fs p = Inl e)"
    by (auto simp: read_fault_def os_path_isfile_def read_binary_def
             split: option.splits fs_node.splits sum.splits)
  have regular: "file_entry fs f =
      PDict [(''path'', Val (PyStr f)), (''content'', Val (PyStr (b64encode bs))),
             (''encoding'', Val (PyStr ''base64''))]"
    if "fs f = Some (RegularFile (Inr bs))"
    using that by (simp add: file_entry_def)
  have other: "file_entry fs f =
      PDict [(''path'', Val (PyStr f)), (''content'', Val PyNone),
             (''encoding'', Val (PyStr ''base64''))]"
    if "\<not> os_path_isfile fs f"
    using that
    by (auto simp: file_entry_def os_path_isfile_def split: option.splits fs_node.splits)
  show ?thesis
    using dict raised fault_iff regular other b64encode_hi by (intro conjI impI) blast+
qed

theorem as_dict_files_witness:
  "(\<exists>d. FinishReportingEvent_as_dict example_fs
           (example_finish_event [''/var/log/install.log'', ''/var/log'', ''missing.txt'']) = Inr d
       \<and> map_of d ''files'' =
           Some (PList
             [PDict [(''path'', Val (PyStr ''/var/log/install.log'')),
                     (''content'', Val (PyStr ''aGk='')), (''encoding'', Val (PyStr ''base64''))],
              PDict [(''path'', Val (PyStr ''/var/log'')),
                     (''content'', Val PyNone), (''encoding'', Val (PyStr ''base64''))],
              PDict [(''path'', Val (PyStr ''missing.txt'')),
                     (''content'', Val PyNone), (''encoding'', Val (PyStr ''base64''))]]))
   \<and> (\<exists>d. FinishReportingEvent_as_dict example_fs (example_finish_event []) = Inr d
       \<and> ''files'' \<notin> fst ` set d)
   \<and> FinishReportingEvent_as_dict example_fs
        (example_finish_event [''/var/log/install.log'', ''/var/log/secret'', ''missing.txt''])
       = Inl IOError"
proof -
  let ?files = "[''/var/log/install.log'', ''/var/log'', ''missing.txt'']"
  let ?faulty = "[''/var/log/install.log'', ''/var/log/secret'', ''missing.txt'']"
  have files: "event_post_files (example_finish_event fl) = fl" for fl
    by (simp add: example_finish_event_def)
  have all_read: "\<forall>q\<in>set (event_post_files (example_finish_event ?files)). read_fault example_fs q = None"
    and none_read: "\<forall>q\<in>set (event_post_files (example_finish_event [])). read_fault example_fs q = None"
    by (simp_all add: files read_fault_def example_fs_def)
  have log: "example_fs ''/var/log/install.log'' = Some (RegularFile (Inr ''hi''))"
    and dir: "\<not> os_path_isfile example_fs ''/var/log''"
    and missing: "\<not> os_path_isfile example_fs ''missing.txt''"
    by (simp_all add: example_fs_def os_path_isfile_def)
  have split: "event_post_files (example_finish_event ?faulty) =
                 [''/var/log/install.log''] @ ''/var/log/secret'' # [''missing.txt'']"
    and before: "\<forall>q\<in>set [''/var/log/install.log'']. read_fault example_fs q = None"
    and fault: "read_fault example_fs ''/var/log/secret'' = Some IOError"
    by (simp_all add: files read_fault_def example_fs_def)
  note at_log = as_dict_files [where fs = example_fs and ev = "example_finish_event ?files"
                                 and f = "''/var/log/install.log''" and bs = "''hi''"]
  note at_dir = as_dict_files [where fs = example_fs and ev = "example_finish_event ?files"
                                 and f = "''/var/log''"]
  note at_missing = as_dict_files [where fs = example_fs and ev = "example_finish_event ?files"
                                     and f = "''missing.txt''"]
  note at_empty = as_dict_files [where fs = example_fs and ev = "example_finish_event []"]
  note at_faulty = as_dict_files [where fs = example_fs and ev = "example_finish_event ?faulty"
                                    and pre = "[''/var/log/install.log'']" and p = "''/var/log/secret''"
                                    and post = "[''missing.txt'']" and e = IOError]
  from at_log log have e1: "file_entry example_fs ''/var/log/install.log'' =
      PDict [(''path'', Val (PyStr ''/var/log/install.log'')),
             (''content'', Val (PyStr ''aGk='')), (''encoding'', Val (PyStr ''base64''))]"
    by simp
  from at_dir dir have e2: "file_entry example_fs ''/var/log'' =
      PDict [(''path'', Val (PyStr ''/var/log'')),
             (''content'', Val PyNone), (''encoding'', Val (PyStr ''base64''))]"
    by blast
  from at_missing missing have e3: "file_entry example_fs ''missing.txt'' =
      PDict [(''path'', Val (PyStr ''missing.txt'')),
             (''content'', Val PyNone), (''encoding'', Val (PyStr ''base64''))]"
    by blast
  have nonempty: "event_post_files (example_finish_event ?files) \<noteq> []"
    by (simp add: files)
  from at_log all_read nonempty obtain d where
    "FinishReportingEvent_as_dict example_fs (example_finish_event ?files) = Inr d"
    "map_of d ''files'' =
       Some (PList (map (file_entry example_fs) (event_post_files (example_finish_event ?files))))"
    by blast
  then have first: "\<exists>d. FinishReportingEvent_as_dict example_fs (example_finish_event ?files) = Inr d
       \<and> map_of d ''files'' =
           Some (PList
             [PDict [(''path'', Val (PyStr ''/var/log/install.log'')),
                     (''content'', Val (PyStr ''aGk='')), (''encoding'', Val (PyStr ''base64''))],
              PDict [(''path'', Val (PyStr ''/var/log'')),
                     (''content'', Val PyNone), (''encoding'', Val (PyStr ''base64''))],
              PDict [(''path'', Val (PyStr ''missing.txt'')),
                     (''content'', Val PyNone), (''encoding'', Val (PyStr ''base64''))]])"
    by (simp add: files e1 e2 e3)
  have empty: "event_post_files (example_finish_event []) = []"
    by (simp add: files)
  from at_empty none_read empty
  have second: "\<exists>d. FinishReportingEvent_as_dict example_fs (example_finish_event []) = Inr d
       \<and> ''files'' \<notin> fst ` set d"
    by auto
  from at_faulty split before fault
  have third: "FinishReportingEvent_as_dict example_fs (example_finish_event ?faulty) = Inl IOError"
    by blast
  from first second third show ?thesis by blast
qed

section \<open>Exit of a stack\<close>


lemma set_parent_child_None: "set_parent_child w None nm entry = Inr w"
  by (simp add: set_parent_child_def)












section \<open>Entry of a stack\<close>











section \<open>A stack with reporting disabled\<close>







section \<open>Construction of a stack\<close>





end
